theory Spec2Isabelle
  imports Complex_Main "HOL-Library.Word" "HOL-Library.Signed_Division"
begin

unbundle bit_operations_syntax

section \<open>The WAV package (wav.go) as HOL functions\<close>

text \<open>
  Machine integers of the Go source are words of the same width: \<open>+\<close>, \<open>*\<close> and
  \<open>div\<close> on them wrap and truncate as Go's unsigned arithmetic does. A signed Go
  integer of fixed width (int8, int16, int32, int64) is the word of its bit pattern,
  read with \<open>sint\<close>. Go's \<open>int\<close> parameters of \<open>New\<close> are HOL integers (the
  conversions \<open>uint16(x)\<close>, \<open>uint32(x)\<close> keep the low bits, which is
  \<open>word_of_int\<close>); slice lengths, loop counters and the read cursor, which start at
  zero and only grow, are natural numbers.
\<close>

type_synonym byte = "8 word"
type_synonym uint16 = "16 word"
type_synonym uint32 = "32 word"
type_synonym int8 = "8 word"
type_synonym int16 = "16 word"
type_synonym int32 = "32 word"
type_synonym int64 = "64 word"

text \<open>
  Every way an operation of the package can end other than by its normal result: the
  errors built with \<open>fmt.Errorf\<close>, \<open>io.EOF\<close>, and the two run-time panics the
  code can raise (integer division by zero, index out of range).
\<close>

datatype error =
    NilStream
  | UnsupportedFormatTag uint16
  | InvalidFormatTag
  | InvalidBitsPerSample int
  | EOF
  | PanicDivideByZero
  | PanicIndexOutOfRange

fun is_panic :: "error \<Rightarrow> bool" where
  "is_panic PanicDivideByZero = True"
| "is_panic PanicIndexOutOfRange = True"
| "is_panic _ = False"

abbreviation WAVE_FORMAT_PCM :: uint16 where
  "WAVE_FORMAT_PCM \<equiv> 0x1"

abbreviation WAVE_FORMAT_EXTENSIBLE :: uint16 where
  "WAVE_FORMAT_EXTENSIBLE \<equiv> 0xFFFE"

text \<open>The struct \<open>File\<close>; its field \<open>length\<close> is \<open>length_f\<close> here.\<close>

record File =
  formatTag :: uint16
  channels :: uint16
  samplesPerSec :: uint32
  avgBytesPerSec :: uint32
  blockAlign :: uint16
  bitsPerSample :: uint16
  length_f :: uint32
  data :: "byte list"
  offset :: nat

text \<open>The zero value \<open>&File{}\<close>.\<close>

definition File_zero :: File where
  "File_zero = \<lparr> formatTag = 0, channels = 0, samplesPerSec = 0, avgBytesPerSec = 0,
      blockAlign = 0, bitsPerSample = 0, length_f = 0, data = [], offset = 0 \<rparr>"

subsection \<open>Accessors\<close>

definition FormatTag :: "File \<Rightarrow> uint16" where
  "FormatTag v = formatTag v"

definition Channels :: "File \<Rightarrow> nat" where
  "Channels v = unat (channels v)"

definition SamplesPerSec :: "File \<Rightarrow> nat" where
  "SamplesPerSec v = unat (samplesPerSec v)"

definition AvgBytesPerSec :: "File \<Rightarrow> nat" where
  "AvgBytesPerSec v = unat (avgBytesPerSec v)"

definition BlockAlign :: "File \<Rightarrow> nat" where
  "BlockAlign v = unat (blockAlign v)"

definition BitsPerSample :: "File \<Rightarrow> nat" where
  "BitsPerSample v = unat (bitsPerSample v)"

definition Length :: "File \<Rightarrow> nat" where
  "Length v = unat (length_f v)"

definition Bytes :: "File \<Rightarrow> byte list" where
  "Bytes v = data v"

text \<open>
  \<open>Samples\<close>: \<open>int(v.length) / int(v.blockAlign/v.channels)\<close>. The inner division is
  on uint16 and panics when \<open>channels\<close> is zero; the outer one panics when the
  quotient is zero.
\<close>

definition Samples :: "File \<Rightarrow> error + nat" where
  "Samples v =
     (if channels v = 0 then Inl PanicDivideByZero
      else if blockAlign v div channels v = 0 then Inl PanicDivideByZero
      else Inr (unat (length_f v) div unat (blockAlign v div channels v)))"

text \<open>
  \<open>Duration\<close>: \<open>time.Duration(v.Length()/v.BlockAlign()) * time.Second\<close>, an int64
  count of nanoseconds; \<open>time.Second\<close> is \<open>1000000000\<close>.
\<close>

definition Second :: int64 where
  "Second = 1000000000"

definition Duration :: "File \<Rightarrow> error + int64" where
  "Duration v =
     (if BlockAlign v = 0 then Inl PanicDivideByZero
      else Inr (word_of_nat (Length v div BlockAlign v) * Second))"

subsection \<open>New\<close>

definition New :: "int \<Rightarrow> int \<Rightarrow> int \<Rightarrow> error + File" where
  "New samplesPerSec' bitsPerSample' channels' =
     (let audio = File_zero;
          audio = (if bitsPerSample' > 16
                   then audio\<lparr>formatTag := WAVE_FORMAT_EXTENSIBLE\<rparr>
                   else audio\<lparr>formatTag := WAVE_FORMAT_PCM\<rparr>)
      in if bitsPerSample' smod 8 \<noteq> 0 then Inl (InvalidBitsPerSample bitsPerSample')
         else
           let audio = audio\<lparr>samplesPerSec := word_of_int samplesPerSec'\<rparr>;
               audio = audio\<lparr>channels := word_of_int channels'\<rparr>;
               audio = audio\<lparr>bitsPerSample := word_of_int bitsPerSample'\<rparr>;
               audio = audio\<lparr>blockAlign := channels audio * bitsPerSample audio div 8\<rparr>;
               audio = audio\<lparr>avgBytesPerSec := samplesPerSec audio * ucast (blockAlign audio)\<rparr>;
               audio = audio\<lparr>data := []\<rparr>
           in Inr audio)"

subsection \<open>encoding/binary and io, as used by the package\<close>

text \<open>
  \<open>binary.LittleEndian\<close>: \<open>Uint16\<close>, \<open>Uint32\<close> decode the first bytes of a slice,
  \<open>PutUint16\<close>, \<open>PutUint32\<close> are what \<open>binary.Write\<close> emits for a uint16 and a
  uint32.
\<close>

definition Uint16 :: "byte list \<Rightarrow> uint16" where
  "Uint16 b = ucast (b ! 0) OR push_bit 8 (ucast (b ! 1))"

definition Uint32 :: "byte list \<Rightarrow> uint32" where
  "Uint32 b = ucast (b ! 0) OR push_bit 8 (ucast (b ! 1)) OR push_bit 16 (ucast (b ! 2))
     OR push_bit 24 (ucast (b ! 3))"

definition PutUint16 :: "uint16 \<Rightarrow> byte list" where
  "PutUint16 v = [ucast v, ucast (drop_bit 8 v)]"

definition PutUint32 :: "uint32 \<Rightarrow> byte list" where
  "PutUint32 v = [ucast v, ucast (drop_bit 8 v), ucast (drop_bit 16 v), ucast (drop_bit 24 v)]"

text \<open>\<open>[]byte("...")\<close> of an ASCII literal.\<close>

definition ascii :: "string \<Rightarrow> byte list" where
  "ascii s = map of_char s"

text \<open>
  \<open>io.NewSectionReader(bytes.NewReader(stream), off, n)\<close> yields the bytes of
  \<open>stream\<close> from \<open>off\<close> on, at most \<open>n\<close> of them, and fewer where the stream ends
  earlier.
\<close>

definition NewSectionReader :: "byte list \<Rightarrow> nat \<Rightarrow> nat \<Rightarrow> byte list" where
  "NewSectionReader stream off n = take n (drop off stream)"

text \<open>
  \<open>binary.Read(r, binary.LittleEndian, &x)\<close> for a uint16 or uint32 \<open>x\<close>: it reads
  the full width with \<open>io.ReadFull\<close> and decodes; when the reader holds fewer bytes
  it returns an error, which the package ignores, and leaves \<open>x\<close> as it was
  (\<open>None\<close> here).
\<close>

definition Read_uint16 :: "byte list \<Rightarrow> uint16 option" where
  "Read_uint16 r = (if length r < 2 then None else Some (Uint16 (take 2 r)))"

definition Read_uint32 :: "byte list \<Rightarrow> uint32 option" where
  "Read_uint32 r = (if length r < 4 then None else Some (Uint32 (take 4 r)))"

text \<open>
  The value a uint16 (uint32) variable that held \<open>old\<close> has after
  \<open>binary.Read(io.NewSectionReader(reader, off, 2), binary.LittleEndian, &x)\<close>
  (\<open>4\<close> for a uint32), the error being ignored.
\<close>

definition read_uint16_at :: "byte list \<Rightarrow> nat \<Rightarrow> uint16 \<Rightarrow> uint16" where
  "read_uint16_at stream off old =
     (case Read_uint16 (NewSectionReader stream off 2) of None \<Rightarrow> old | Some x \<Rightarrow> x)"

definition read_uint32_at :: "byte list \<Rightarrow> nat \<Rightarrow> uint32 \<Rightarrow> uint32" where
  "read_uint32_at stream off old =
     (case Read_uint32 (NewSectionReader stream off 4) of None \<Rightarrow> old | Some x \<Rightarrow> x)"

text \<open>
  \<open>binary.Read(r, binary.LittleEndian, &s)\<close> for a slice \<open>s\<close> of elements of
  \<open>w\<close> bytes each: it reads \<open>w * len(s)\<close> bytes with \<open>io.ReadFull\<close> and decodes
  them element by element; when the reader holds fewer bytes it returns an error (ignored
  by the package) and the slice keeps its contents.
\<close>

definition Read_slice :: "nat \<Rightarrow> (byte list \<Rightarrow> 'a) \<Rightarrow> byte list \<Rightarrow> 'a list \<Rightarrow> 'a list" where
  "Read_slice w dec r s =
     (if length r < w * length s then s
      else map (\<lambda>k. dec (take w (drop (k * w) r))) [0..<length s])"

text \<open>An indexed assignment \<open>dst[j] = src[i]\<close>; either index out of range panics.\<close>

definition index_assign :: "byte list \<Rightarrow> nat \<Rightarrow> byte list \<Rightarrow> nat \<Rightarrow> error + byte list" where
  "index_assign dst j src i =
     (if i < length src \<and> j < length dst then Inr (dst[j := src ! i])
      else Inl PanicIndexOutOfRange)"

subsection \<open>Read and Write\<close>

text \<open>
  \<open>Read\<close> fills \<open>p\<close> from the cursor on. The result holds the count, the error
  (\<open>None\<close> for nil, \<open>Some EOF\<close>), the buffer \<open>p\<close> and the file as the call leaves
  them. \<open>v.data[v.offset]\<close> panics when the cursor is past the bytes held.
\<close>

function Read_loop :: "nat \<Rightarrow> byte list \<Rightarrow> File \<Rightarrow> error + ((nat \<times> error option) \<times> byte list \<times> File)" where
  "Read_loop i p v =
     (if i < length p then
        (if offset v \<ge> Length v then Inr ((i, Some EOF), p, v)
         else if offset v \<ge> length (data v) then Inl PanicIndexOutOfRange
         else Read_loop (i + 1) (p[i := data v ! offset v]) (v\<lparr>offset := offset v + 1\<rparr>))
      else Inr ((length p, None), p, v))"
  by pat_completeness auto
termination
  by (relation "measure (\<lambda>(i, p, v). length p - i)") auto

declare Read_loop.simps [simp del]

definition Read :: "File \<Rightarrow> byte list \<Rightarrow> error + ((nat \<times> error option) \<times> byte list \<times> File)" where
  "Read v p = Read_loop 0 p v"

function Write_loop :: "nat \<Rightarrow> byte list \<Rightarrow> File \<Rightarrow> nat \<times> File" where
  "Write_loop n b v =
     (if n < length b then Write_loop (n + 1) b (v\<lparr>data := data v @ [b ! n]\<rparr>)
      else (n, v))"
  by pat_completeness auto
termination
  by (relation "measure (\<lambda>(n, b, v). length b - n)") auto

declare Write_loop.simps [simp del]

definition Write :: "File \<Rightarrow> byte list \<Rightarrow> (nat \<times> error option) \<times> File" where
  "Write v b =
     (let size = length b;
          (n, v) = Write_loop 0 b v;
          v = v\<lparr>length_f := length_f v + word_of_nat size\<rparr>
      in ((n, None), v))"

subsection \<open>Int32s\<close>

definition fromS8ToInt32s :: "File \<Rightarrow> error + int32 list" where
  "fromS8ToInt32s v =
     (case Samples v of
        Inl e \<Rightarrow> Inl e
      | Inr samples \<Rightarrow>
          let s8 = replicate samples (0 :: int8);
              s8 = Read_slice 1 (\<lambda>b. b ! 0) (data v) s8
          in Inr (map (\<lambda>x. scast x * 2 ^ 24) s8))"

definition fromS16ToInt32s :: "File \<Rightarrow> error + int32 list" where
  "fromS16ToInt32s v =
     (case Samples v of
        Inl e \<Rightarrow> Inl e
      | Inr samples \<Rightarrow>
          let s16 = replicate samples (0 :: int16);
              s16 = Read_slice 2 Uint16 (data v) s16
          in Inr (map (\<lambda>x. scast x * 2 ^ 16) s16))"

text \<open>
  The loop of \<open>fromS24ToInt32s\<close>: sample \<open>i / 3\<close> of \<open>src\<close> goes to the bytes
  \<open>n + i\<close>, \<open>n + i + 1\<close>, \<open>n + i + 2\<close> of \<open>dst\<close>, where \<open>n = i / 3 + 1\<close>.
\<close>

function fromS24_loop :: "nat \<Rightarrow> nat \<Rightarrow> byte list \<Rightarrow> byte list \<Rightarrow> error + byte list" where
  "fromS24_loop i len src dst =
     (if i < len then
        (let n = i div 3 + 1 in
         case index_assign dst (n + i) src i of
           Inl e \<Rightarrow> Inl e
         | Inr dst \<Rightarrow>
             (case index_assign dst (n + i + 1) src (i + 1) of
                Inl e \<Rightarrow> Inl e
              | Inr dst \<Rightarrow>
                  (case index_assign dst (n + i + 2) src (i + 2) of
                     Inl e \<Rightarrow> Inl e
                   | Inr dst \<Rightarrow> fromS24_loop (i + 3) len src dst)))
      else Inr dst)"
  by pat_completeness auto
termination
  by (relation "measure (\<lambda>(i, len, src, dst). len - i)") auto

declare fromS24_loop.simps [simp del]

definition fromS24ToInt32s :: "File \<Rightarrow> error + int32 list" where
  "fromS24ToInt32s v =
     (let len = Length v in
      case Samples v of
        Inl e \<Rightarrow> Inl e
      | Inr samples \<Rightarrow>
          let data' = replicate (samples * 4) (0 :: byte);
              s32 = replicate samples (0 :: int32)
          in case fromS24_loop 0 len (data v) data' of
               Inl e \<Rightarrow> Inl e
             | Inr data' \<Rightarrow>
                 let s32 = Read_slice 4 Uint32 data' s32
                 in Inr (map (\<lambda>x. x * 2 ^ 8) s32))"

definition fromS32ToInt32s :: "File \<Rightarrow> error + int32 list" where
  "fromS32ToInt32s v =
     (case Samples v of
        Inl e \<Rightarrow> Inl e
      | Inr samples \<Rightarrow>
          let s32 = replicate samples (0 :: int32);
              s32 = Read_slice 4 Uint32 (data v) s32
          in Inr s32)"

definition Int32s :: "File \<Rightarrow> error + int32 list" where
  "Int32s v =
     (if BitsPerSample v = 8 then fromS8ToInt32s v
      else if BitsPerSample v = 16 then fromS16ToInt32s v
      else if BitsPerSample v = 24 then fromS24ToInt32s v
      else if BitsPerSample v = 32 then fromS32ToInt32s v
      else Inr [])"

subsection \<open>Unmarshal and Marshal\<close>

text \<open>
  \<open>Unmarshal\<close> writes into the destination as it goes, so the destination it leaves
  is part of the result, also when it returns an error. The destination is \<open>None\<close>
  for a nil pointer.
\<close>

fun Unmarshal :: "byte list \<Rightarrow> File option \<Rightarrow> error option \<times> File option" where
  "Unmarshal stream None = (Some NilStream, None)"
| "Unmarshal stream (Some audio) =
     (let audio = (case Read_uint16 (NewSectionReader stream 20 2) of
                     None \<Rightarrow> audio | Some x \<Rightarrow> audio\<lparr>formatTag := x\<rparr>)
      in if \<not> (formatTag audio = WAVE_FORMAT_PCM \<or> formatTag audio = WAVE_FORMAT_EXTENSIBLE)
         then (Some (UnsupportedFormatTag (formatTag audio)), Some audio)
         else
           let audio = (case Read_uint16 (NewSectionReader stream 22 2) of
                          None \<Rightarrow> audio | Some x \<Rightarrow> audio\<lparr>channels := x\<rparr>);
               audio = (case Read_uint32 (NewSectionReader stream 24 4) of
                          None \<Rightarrow> audio | Some x \<Rightarrow> audio\<lparr>samplesPerSec := x\<rparr>);
               audio = (case Read_uint32 (NewSectionReader stream 28 4) of
                          None \<Rightarrow> audio | Some x \<Rightarrow> audio\<lparr>avgBytesPerSec := x\<rparr>);
               audio = (case Read_uint16 (NewSectionReader stream 32 2) of
                          None \<Rightarrow> audio | Some x \<Rightarrow> audio\<lparr>blockAlign := x\<rparr>);
               audio = (case Read_uint16 (NewSectionReader stream 34 2) of
                          None \<Rightarrow> audio | Some x \<Rightarrow> audio\<lparr>bitsPerSample := x\<rparr>);
               audio = (if formatTag audio = WAVE_FORMAT_PCM then
                          (case Read_uint32 (NewSectionReader stream 40 4) of
                             None \<Rightarrow> audio | Some x \<Rightarrow> audio\<lparr>length_f := x\<rparr>)
                        else if formatTag audio = WAVE_FORMAT_EXTENSIBLE then
                          (case Read_uint32 (NewSectionReader stream 76 4) of
                             None \<Rightarrow> audio | Some x \<Rightarrow> audio\<lparr>length_f := x\<rparr>)
                        else audio);
               buf = (if formatTag audio = WAVE_FORMAT_PCM then
                        NewSectionReader stream 44 (unat (length_f audio))
                      else if formatTag audio = WAVE_FORMAT_EXTENSIBLE then
                        NewSectionReader stream 80 (unat (length_f audio))
                      else []);
               audio = audio\<lparr>data := buf\<rparr>
           in (None, Some audio))"

definition getChannelMask :: "uint16 \<Rightarrow> uint32" where
  "getChannelMask c =
     (if c = 1 then 0x4
      else if c = 2 then 0x3
      else if c = 4 then 0x33
      else if c = 6 then 0x3f
      else if c = 8 then 0x63f
      else 0)"

definition guid :: "byte list" where
  "guid = [0x01, 0x00, 0x00, 0x00, 0x00, 0x00, 0x10, 0x00,
           0x80, 0x00, 0x00, 0xaa, 0x00, 0x38, 0x9b, 0x71]"

text \<open>
  \<open>Marshal\<close>. The division \<open>v.length/uint32(v.blockAlign)\<close> of the EXTENSIBLE
  branch panics when \<open>blockAlign\<close> is zero.
\<close>

definition Marshal :: "File \<Rightarrow> error + byte list" where
  "Marshal v =
     (let buf = ascii ''RIFF'' in
      case (if formatTag v = WAVE_FORMAT_PCM then Inr (buf @ PutUint32 (length_f v + 36))
            else if formatTag v = WAVE_FORMAT_EXTENSIBLE then Inr (buf @ PutUint32 (length_f v + 72))
            else Inl InvalidFormatTag) of
        Inl e \<Rightarrow> Inl e
      | Inr buf \<Rightarrow>
          let buf = buf @ ascii ''WAVEfmt '';
              buf = (if formatTag v = WAVE_FORMAT_PCM then buf @ PutUint32 16
                     else buf @ PutUint32 40);
              buf = buf @ PutUint16 (formatTag v);
              buf = buf @ PutUint16 (channels v);
              buf = buf @ PutUint32 (samplesPerSec v);
              buf = buf @ PutUint32 (avgBytesPerSec v);
              buf = buf @ PutUint16 (blockAlign v);
              buf = buf @ PutUint16 (bitsPerSample v)
          in case (if formatTag v = WAVE_FORMAT_EXTENSIBLE then
                     (let buf = buf @ PutUint16 22;
                          buf = buf @ PutUint16 (bitsPerSample v);
                          buf = buf @ PutUint32 (getChannelMask (channels v));
                          buf = buf @ guid;
                          buf = buf @ ascii ''fact'';
                          buf = buf @ PutUint32 4
                      in if blockAlign v = 0 then Inl PanicDivideByZero
                         else Inr (buf @ PutUint32 (length_f v div ucast (blockAlign v))))
                   else Inr buf) of
               Inl e \<Rightarrow> Inl e
             | Inr buf \<Rightarrow>
                 let buf = buf @ ascii ''data'';
                     buf = buf @ PutUint32 (length_f v);
                     buf = buf @ data v
                 in Inr buf)"

subsection \<open>Predicates and inputs the properties are stated with\<close>

text \<open>
  The two relations among the header fields, in plain arithmetic on the values the
  accessors \<open>BlockAlign\<close>, \<open>Channels\<close>, \<open>BitsPerSample\<close>,
  \<open>AvgBytesPerSec\<close> and \<open>SamplesPerSec\<close> return.
\<close>

definition derived_fields_hold :: "File \<Rightarrow> bool" where
  "derived_fields_hold v \<longleftrightarrow>
     BlockAlign v = Channels v * BitsPerSample v div 8 \<and>
     AvgBytesPerSec v = SamplesPerSec v * BlockAlign v"

text \<open>The file \<open>New(44100, 16, 2)\<close> returns.\<close>

definition cd_file :: File where
  "cd_file = \<lparr> formatTag = WAVE_FORMAT_PCM, channels = 2, samplesPerSec = 44100,
      avgBytesPerSec = 176400, blockAlign = 4, bitsPerSample = 16, length_f = 0,
      data = [], offset = 0 \<rparr>"

text \<open>
  The file \<open>New(44100, 16, 5000)\<close> returns: \<open>5000 * 16\<close> is 80000, which
  the uint16 product keeps as \<open>80000 - 65536 = 14464\<close>, and \<open>14464 / 8 = 1808\<close>.
\<close>

definition wide_file :: File where
  "wide_file = \<lparr> formatTag = WAVE_FORMAT_PCM, channels = 5000, samplesPerSec = 44100,
      avgBytesPerSec = 79732800, blockAlign = 1808, bitsPerSample = 16, length_f = 0,
      data = [], offset = 0 \<rparr>"

text \<open>
  A PCM header of 44 bytes (RIFF, size 36, WAVEfmt, 16, tag 1, 2 channels, 44100 Hz,
  176400 bytes per second, 16 bits, data, length 0) whose block alignment field holds 8.
\<close>

definition misaligned_pcm :: "byte list" where
  "misaligned_pcm =
     [0x52, 0x49, 0x46, 0x46, 0x24, 0, 0, 0, 0x57, 0x41, 0x56, 0x45, 0x66, 0x6D, 0x74, 0x20,
      0x10, 0, 0, 0, 0x01, 0, 0x02, 0, 0x44, 0xAC, 0, 0, 0x10, 0xB1, 0x02, 0, 0x08, 0, 0x10, 0,
      0x64, 0x61, 0x74, 0x61, 0, 0, 0, 0]"

definition misaligned_file :: File where
  "misaligned_file = \<lparr> formatTag = WAVE_FORMAT_PCM, channels = 2, samplesPerSec = 44100,
      avgBytesPerSec = 176400, blockAlign = 8, bitsPerSample = 16, length_f = 0,
      data = [], offset = 0 \<rparr>"

text \<open>
  The first 22 bytes of a WAV file whose format tag is 2 (ADPCM): RIFF, size, WAVEfmt,
  chunk size 50, tag 2.
\<close>

definition adpcm_head :: "byte list" where
  "adpcm_head =
     [0x52, 0x49, 0x46, 0x46, 0x46, 0, 0, 0, 0x57, 0x41, 0x56, 0x45, 0x66, 0x6D, 0x74, 0x20,
      0x32, 0, 0, 0, 0x02, 0]"

text \<open>
  A PCM file cut short: the 44-byte header (RIFF, size 40, WAVEfmt, 16, tag 1, 1 channel,
  8000 Hz, 8000 bytes per second, block alignment 1, 8 bits, data) declares a payload of
  4 bytes, and 2 bytes of payload follow. \<open>truncated_file\<close> is what \<open>Unmarshal\<close>
  makes of it.
\<close>

definition truncated_pcm :: "byte list" where
  "truncated_pcm =
     [0x52, 0x49, 0x46, 0x46, 0x28, 0, 0, 0, 0x57, 0x41, 0x56, 0x45, 0x66, 0x6D, 0x74, 0x20,
      0x10, 0, 0, 0, 0x01, 0, 0x01, 0, 0x40, 0x1F, 0, 0, 0x40, 0x1F, 0, 0, 0x01, 0, 0x08, 0,
      0x64, 0x61, 0x74, 0x61, 0x04, 0, 0, 0, 0x01, 0x02]"

definition truncated_file :: File where
  "truncated_file = \<lparr> formatTag = WAVE_FORMAT_PCM, channels = 1, samplesPerSec = 8000,
      avgBytesPerSec = 8000, blockAlign = 1, bitsPerSample = 8, length_f = 4,
      data = [0x01, 0x02], offset = 0 \<rparr>"

text \<open>The file \<open>New(44100, 8, 0)\<close> returns, and a file of 12-bit samples.\<close>

definition zero_channel_file :: File where
  "zero_channel_file = \<lparr> formatTag = WAVE_FORMAT_PCM, channels = 0, samplesPerSec = 44100,
      avgBytesPerSec = 0, blockAlign = 0, bitsPerSample = 8, length_f = 0,
      data = [], offset = 0 \<rparr>"

definition twelve_bit_file :: File where
  "twelve_bit_file = \<lparr> formatTag = WAVE_FORMAT_PCM, channels = 1, samplesPerSec = 44100,
      avgBytesPerSec = 88200, blockAlign = 2, bitsPerSample = 12, length_f = 2,
      data = [0x34, 0x02], offset = 0 \<rparr>"

text \<open>
  The file \<open>New(48000, 24, 1)\<close> returns, and that file after a \<open>Write\<close> of the
  three 24-bit samples \<open>1\<close>, \<open>-1\<close> and \<open>65536\<close> (little-endian:
  \<open>01 00 00\<close>, \<open>FF FF FF\<close>, \<open>00 00 01\<close>).
\<close>

definition s24_empty :: File where
  "s24_empty = \<lparr> formatTag = WAVE_FORMAT_EXTENSIBLE, channels = 1, samplesPerSec = 48000,
      avgBytesPerSec = 144000, blockAlign = 3, bitsPerSample = 24, length_f = 0,
      data = [], offset = 0 \<rparr>"

definition s24_file :: File where
  "s24_file = \<lparr> formatTag = WAVE_FORMAT_EXTENSIBLE, channels = 1, samplesPerSec = 48000,
      avgBytesPerSec = 144000, blockAlign = 3, bitsPerSample = 24, length_f = 9,
      data = [0x01, 0x00, 0x00, 0xFF, 0xFF, 0xFF, 0x00, 0x00, 0x01], offset = 0 \<rparr>"

section \<open>Properties of the package\<close>
subsection \<open>Construction\<close>

text \<open>
  C5. \<open>New\<close> fails exactly when the bit depth is not a multiple of 8 (Go's \<open>%\<close>
  is the truncating remainder \<open>smod\<close>); when it succeeds the format tag is PCM for a
  depth of at most 16 and EXTENSIBLE above.
\<close>

theorem New_fails_iff_and_tag:
  "((\<exists>e. New rate bits ch = Inl e) \<longleftrightarrow> bits smod 8 \<noteq> 0) \<and>
   (\<forall>f. New rate bits ch = Inr f \<longrightarrow>
      formatTag f = (if bits \<le> 16 then WAVE_FORMAT_PCM else WAVE_FORMAT_EXTENSIBLE))"
proof (intro conjI allI impI)
  show "(\<exists>e. New rate bits ch = Inl e) \<longleftrightarrow> bits smod 8 \<noteq> 0"
    by (simp add: New_def Let_def)
next
  fix f assume "New rate bits ch = Inr f"
  then show "formatTag f = (if bits \<le> 16 then WAVE_FORMAT_PCM else WAVE_FORMAT_EXTENSIBLE)"
    by (auto simp add: New_def Let_def File_zero_def split: if_splits)
qed

theorem New_fails_iff_and_tag_witness:
  "New 44100 17 2 = Inl (InvalidBitsPerSample 17) \<and> (17::int) smod 8 \<noteq> 0 \<and>
   (\<exists>f. New 44100 16 2 = Inr f \<and> formatTag f = WAVE_FORMAT_PCM) \<and>
   (\<exists>f. New 96000 24 1 = Inr f \<and> formatTag f = WAVE_FORMAT_EXTENSIBLE)"
proof -
  have a: "(17::int) smod 8 \<noteq> 0"
    by (simp add: signed_modulo_int_def)
  from New_fails_iff_and_tag [of 44100 17 2] a
  obtain e where "New 44100 17 2 = Inl e"
    by blast
  then have b: "New 44100 17 2 = Inl (InvalidBitsPerSample 17)"
    by (simp add: New_def Let_def split: if_splits)
  have c: "\<exists>f. New 44100 16 2 = Inr f \<and> formatTag f = WAVE_FORMAT_PCM"
    using New_fails_iff_and_tag [of 44100 16 2]
    by (simp add: New_def Let_def signed_modulo_int_def)
  have d: "\<exists>f. New 96000 24 1 = Inr f \<and> formatTag f = WAVE_FORMAT_EXTENSIBLE"
    using New_fails_iff_and_tag [of 96000 24 1]
    by (simp add: New_def Let_def signed_modulo_int_def)
  from a b c d show ?thesis
    by blast
qed

subsection \<open>Little-endian fields\<close>

lemma PutUint16_Uint16: "PutUint16 (Uint16 [a, b]) = [a, b]"
  unfolding PutUint16_def Uint16_def
  by (simp, intro conjI; rule bit_word_eqI; auto simp add: bit_simps dest: bit_imp_le_length)

lemma PutUint32_Uint32: "PutUint32 (Uint32 [a, b, c, d]) = [a, b, c, d]"
  unfolding PutUint32_def Uint32_def
  by (simp, intro conjI; rule bit_word_eqI; auto simp add: bit_simps dest: bit_imp_le_length)

lemma Uint16_PutUint16: "Uint16 (PutUint16 w) = w"
  unfolding PutUint16_def Uint16_def
  by (simp, rule bit_word_eqI, auto simp add: bit_simps)

lemma Uint32_PutUint32: "Uint32 (PutUint32 w) = w"
  unfolding PutUint32_def Uint32_def
proof (simp, rule bit_word_eqI)
  fix n assume n: "n < LENGTH(32)"
  show "bit (ucast (ucast w :: byte) OR push_bit 8 (ucast (ucast (drop_bit 8 w) :: byte)) OR
            push_bit 16 (ucast (ucast (drop_bit 16 w) :: byte)) OR
            push_bit 24 (ucast (ucast (drop_bit 24 w) :: byte)) :: 32 word) n = bit w n"
  proof -
    consider "n < 8" | "8 \<le> n" "n < 16" | "16 \<le> n" "n < 24" | "24 \<le> n" "n < 32"
      using n by fastforce
    then show ?thesis
      by cases (auto simp add: bit_simps)
  qed
qed

lemma length_NewSectionReader:
  "length (NewSectionReader stream off n) = min n (length stream - off)"
  by (simp add: NewSectionReader_def)

lemma Read_uint16_section:
  "Read_uint16 (NewSectionReader stream off 2) =
     (if off + 2 \<le> length stream then Some (Uint16 (NewSectionReader stream off 2)) else None)"
  by (auto simp add: Read_uint16_def NewSectionReader_def)

lemma Read_uint32_section:
  "Read_uint32 (NewSectionReader stream off 4) =
     (if off + 4 \<le> length stream then Some (Uint32 (NewSectionReader stream off 4)) else None)"
  by (auto simp add: Read_uint32_def NewSectionReader_def)

subsection \<open>What a decode leaves in the destination\<close>

lemma read_uint16_at:
  "read_uint16_at stream off old =
     (if off + 2 \<le> length stream then Uint16 (NewSectionReader stream off 2) else old)"
  by (simp add: read_uint16_at_def Read_uint16_section)

lemma read_uint32_at:
  "read_uint32_at stream off old =
     (if off + 4 \<le> length stream then Uint32 (NewSectionReader stream off 4) else old)"
  by (simp add: read_uint32_at_def Read_uint32_section)

lemma read_formatTag:
  "(case Read_uint16 (NewSectionReader stream off 2) of
      None \<Rightarrow> a | Some x \<Rightarrow> a\<lparr>formatTag := x\<rparr>) =
   a\<lparr>formatTag := read_uint16_at stream off (formatTag a)\<rparr>"
  by (simp add: read_uint16_at_def split: option.split)

lemma read_channels:
  "(case Read_uint16 (NewSectionReader stream off 2) of
      None \<Rightarrow> a | Some x \<Rightarrow> a\<lparr>channels := x\<rparr>) =
   a\<lparr>channels := read_uint16_at stream off (channels a)\<rparr>"
  by (simp add: read_uint16_at_def split: option.split)

lemma read_samplesPerSec:
  "(case Read_uint32 (NewSectionReader stream off 4) of
      None \<Rightarrow> a | Some x \<Rightarrow> a\<lparr>samplesPerSec := x\<rparr>) =
   a\<lparr>samplesPerSec := read_uint32_at stream off (samplesPerSec a)\<rparr>"
  by (simp add: read_uint32_at_def split: option.split)

lemma read_avgBytesPerSec:
  "(case Read_uint32 (NewSectionReader stream off 4) of
      None \<Rightarrow> a | Some x \<Rightarrow> a\<lparr>avgBytesPerSec := x\<rparr>) =
   a\<lparr>avgBytesPerSec := read_uint32_at stream off (avgBytesPerSec a)\<rparr>"
  by (simp add: read_uint32_at_def split: option.split)

lemma read_blockAlign:
  "(case Read_uint16 (NewSectionReader stream off 2) of
      None \<Rightarrow> a | Some x \<Rightarrow> a\<lparr>blockAlign := x\<rparr>) =
   a\<lparr>blockAlign := read_uint16_at stream off (blockAlign a)\<rparr>"
  by (simp add: read_uint16_at_def split: option.split)

lemma read_bitsPerSample:
  "(case Read_uint16 (NewSectionReader stream off 2) of
      None \<Rightarrow> a | Some x \<Rightarrow> a\<lparr>bitsPerSample := x\<rparr>) =
   a\<lparr>bitsPerSample := read_uint16_at stream off (bitsPerSample a)\<rparr>"
  by (simp add: read_uint16_at_def split: option.split)

lemma read_length_f:
  "(case Read_uint32 (NewSectionReader stream off 4) of
      None \<Rightarrow> a | Some x \<Rightarrow> a\<lparr>length_f := x\<rparr>) =
   a\<lparr>length_f := read_uint32_at stream off (length_f a)\<rparr>"
  by (simp add: read_uint32_at_def split: option.split)

lemmas read_field = read_formatTag read_channels read_samplesPerSec read_avgBytesPerSec
  read_blockAlign read_bitsPerSample read_length_f

lemma Unmarshal_rejects:
  assumes "read_uint16_at stream 20 (formatTag dst) \<noteq> WAVE_FORMAT_PCM"
    and "read_uint16_at stream 20 (formatTag dst) \<noteq> WAVE_FORMAT_EXTENSIBLE"
  shows "Unmarshal stream (Some dst) =
     (Some (UnsupportedFormatTag (read_uint16_at stream 20 (formatTag dst))),
      Some (dst\<lparr>formatTag := read_uint16_at stream 20 (formatTag dst)\<rparr>))"
  using assms by (simp add: read_formatTag)

lemma Unmarshal_pcm:
  assumes "read_uint16_at stream 20 (formatTag dst) = WAVE_FORMAT_PCM"
  shows "Unmarshal stream (Some dst) =
     (None, Some (dst\<lparr>formatTag := WAVE_FORMAT_PCM,
        channels := read_uint16_at stream 22 (channels dst),
        samplesPerSec := read_uint32_at stream 24 (samplesPerSec dst),
        avgBytesPerSec := read_uint32_at stream 28 (avgBytesPerSec dst),
        blockAlign := read_uint16_at stream 32 (blockAlign dst),
        bitsPerSample := read_uint16_at stream 34 (bitsPerSample dst),
        length_f := read_uint32_at stream 40 (length_f dst),
        data := NewSectionReader stream 44 (unat (read_uint32_at stream 40 (length_f dst)))\<rparr>))"
  using assms by (simp add: read_field Let_def)

lemma Unmarshal_extensible:
  assumes "read_uint16_at stream 20 (formatTag dst) = WAVE_FORMAT_EXTENSIBLE"
  shows "Unmarshal stream (Some dst) =
     (None, Some (dst\<lparr>formatTag := WAVE_FORMAT_EXTENSIBLE,
        channels := read_uint16_at stream 22 (channels dst),
        samplesPerSec := read_uint32_at stream 24 (samplesPerSec dst),
        avgBytesPerSec := read_uint32_at stream 28 (avgBytesPerSec dst),
        blockAlign := read_uint16_at stream 32 (blockAlign dst),
        bitsPerSample := read_uint16_at stream 34 (bitsPerSample dst),
        length_f := read_uint32_at stream 76 (length_f dst),
        data := NewSectionReader stream 80 (unat (read_uint32_at stream 76 (length_f dst)))\<rparr>))"
  using assms by (simp add: read_field Let_def)

lemma Unmarshal_cases:
  obtains (rejected) "read_uint16_at stream 20 (formatTag dst) \<noteq> WAVE_FORMAT_PCM"
      "read_uint16_at stream 20 (formatTag dst) \<noteq> WAVE_FORMAT_EXTENSIBLE"
  | (pcm) "read_uint16_at stream 20 (formatTag dst) = WAVE_FORMAT_PCM"
  | (extensible) "read_uint16_at stream 20 (formatTag dst) = WAVE_FORMAT_EXTENSIBLE"
  by blast

subsection \<open>Derived header fields\<close>

lemma New_word_fields:
  "New rate bits ch = Inr f \<Longrightarrow>
     blockAlign f = channels f * bitsPerSample f div 8 \<and>
     avgBytesPerSec f = samplesPerSec f * ucast (blockAlign f)"
  by (auto simp add: New_def Let_def split: if_splits)

lemma unat_mult_uint16:
  "unat (a :: uint16) * unat b < 65536 \<Longrightarrow> unat (a * b) = unat a * unat b"
  using unat_mult_lem [of a b] by simp

lemma unat_mult_uint32:
  "unat (a :: uint32) * unat b < 4294967296 \<Longrightarrow> unat (a * b) = unat a * unat b"
  using unat_mult_lem [of a b] by simp

lemma unat_ucast_uint16_uint32: "unat (ucast (a :: uint16) :: uint32) = unat a"
proof -
  have "unat a < 2 ^ 16"
    using unsigned_less [of a] by simp
  then have "unat a < 2 ^ 32"
    by simp
  then show ?thesis
    by (simp add: unsigned_ucast_eq take_bit_nat_eq_self)
qed

lemma New_derived_fields:
  assumes "New rate bits ch = Inr f"
    and "Channels f * BitsPerSample f < 65536"
    and "SamplesPerSec f * (Channels f * BitsPerSample f div 8) < 4294967296"
  shows "derived_fields_hold f"
proof -
  from assms(1) have b: "blockAlign f = channels f * bitsPerSample f div 8"
    and a: "avgBytesPerSec f = samplesPerSec f * ucast (blockAlign f)"
    using New_word_fields by blast+
  from assms(2)
  have m: "unat (channels f * bitsPerSample f) = unat (channels f) * unat (bitsPerSample f)"
    by (simp add: Channels_def BitsPerSample_def unat_mult_uint16)
  have B: "BlockAlign f = Channels f * BitsPerSample f div 8"
    unfolding BlockAlign_def Channels_def BitsPerSample_def
    by (subst b, simp add: unat_div m)
  from assms(3) B
  have "unat (samplesPerSec f) * unat (ucast (blockAlign f) :: uint32) < 4294967296"
    by (simp add: unat_ucast_uint16_uint32 SamplesPerSec_def BlockAlign_def)
  then have "unat (samplesPerSec f * ucast (blockAlign f)) =
      unat (samplesPerSec f) * unat (blockAlign f)"
    by (simp add: unat_mult_uint32 unat_ucast_uint16_uint32)
  with a have A: "AvgBytesPerSec f = SamplesPerSec f * BlockAlign f"
    by (simp add: AvgBytesPerSec_def SamplesPerSec_def BlockAlign_def)
  from A B show ?thesis
    by (simp add: derived_fields_hold_def)
qed

lemma Unmarshal_header_fields:
  assumes "Unmarshal stream (Some dst) = (None, Some g)"
  shows "channels g = read_uint16_at stream 22 (channels dst) \<and>
      samplesPerSec g = read_uint32_at stream 24 (samplesPerSec dst) \<and>
      avgBytesPerSec g = read_uint32_at stream 28 (avgBytesPerSec dst) \<and>
      blockAlign g = read_uint16_at stream 32 (blockAlign dst) \<and>
      bitsPerSample g = read_uint16_at stream 34 (bitsPerSample dst)"
proof (cases rule: Unmarshal_cases [of stream dst])
  case rejected
  from assms Unmarshal_rejects [OF rejected] show ?thesis
    by simp
next
  case pcm
  from assms Unmarshal_pcm [OF pcm] show ?thesis
    by auto
next
  case extensible
  from assms Unmarshal_extensible [OF extensible] show ?thesis
    by auto
qed

lemma Unmarshal_misaligned:
  "Unmarshal misaligned_pcm (Some File_zero) = (None, Some misaligned_file)"
  by (simp add: misaligned_pcm_def misaligned_file_def File_zero_def NewSectionReader_def
      Read_uint16_def Read_uint32_def Uint16_def Uint32_def)

lemma New_cd_file: "New 44100 16 2 = Inr cd_file"
  by (simp add: New_def Let_def signed_modulo_int_def File_zero_def cd_file_def)

lemma New_wide_file: "New 44100 16 5000 = Inr wide_file"
  by (simp add: New_def Let_def signed_modulo_int_def File_zero_def wide_file_def)

text \<open>
  C3, as stated, fails on both sides. After decode: \<open>Unmarshal\<close> succeeds on a
  44-byte PCM header whose block alignment field holds 8 for 2 channels of 16 bits, and
  the file it leaves has a block alignment of 8, not \<open>2 * 16 / 8 = 4\<close>, and a byte rate
  of 176400, not \<open>44100 * 8 = 352800\<close>. After construction: \<open>New(44100, 16, 5000)\<close>
  succeeds with a block alignment of 1808, not \<open>5000 * 16 / 8 = 10000\<close>, since the
  product \<open>5000 * 16\<close> does not fit the uint16 it is computed in.
\<close>

theorem derived_fields_fail_after_Unmarshal_and_New:
  "Unmarshal misaligned_pcm (Some File_zero) = (None, Some misaligned_file) \<and>
   BlockAlign misaligned_file = 8 \<and>
   Channels misaligned_file * BitsPerSample misaligned_file div 8 = 4 \<and>
   AvgBytesPerSec misaligned_file = 176400 \<and>
   SamplesPerSec misaligned_file * BlockAlign misaligned_file = 352800 \<and>
   New 44100 16 5000 = Inr wide_file \<and>
   BlockAlign wide_file = 1808 \<and>
   Channels wide_file * BitsPerSample wide_file div 8 = 10000"
proof -
  have "BlockAlign misaligned_file = 8"
    by (simp add: BlockAlign_def misaligned_file_def)
  moreover have "Channels misaligned_file * BitsPerSample misaligned_file div 8 = 4"
    by (simp add: Channels_def BitsPerSample_def misaligned_file_def)
  moreover have "AvgBytesPerSec misaligned_file = 176400"
    by (simp add: AvgBytesPerSec_def misaligned_file_def)
  moreover have "SamplesPerSec misaligned_file * BlockAlign misaligned_file = 352800"
    by (simp add: SamplesPerSec_def BlockAlign_def misaligned_file_def)
  moreover have "BlockAlign wide_file = 1808"
    by (simp add: BlockAlign_def wide_file_def)
  moreover have "Channels wide_file * BitsPerSample wide_file div 8 = 10000"
    by (simp add: Channels_def BitsPerSample_def wide_file_def)
  ultimately show ?thesis
    using Unmarshal_misaligned New_wide_file by simp
qed

text \<open>
  C3, amended. A file returned by \<open>New\<close> whose product
  \<open>channels * bitsPerSample\<close> fits 16 bits and whose product of the sample rate and
  \<open>channels * bitsPerSample / 8\<close> fits 32 bits satisfies
  \<open>blockAlign = channels * bitsPerSample / 8\<close> and
  \<open>avgBytesPerSec = samplesPerSec * blockAlign\<close>, in plain arithmetic. A successful
  \<open>Unmarshal\<close>, of a buffer of any length, establishes neither relation: each of the
  five header fields is the value the buffer holds at its offset (22, 24, 28, 32, 34),
  or the value the destination had where the buffer ends before that field.
\<close>

theorem derived_fields_after_New_and_Unmarshal:
  "(New rate bits ch = Inr f \<and> Channels f * BitsPerSample f < 65536 \<and>
    SamplesPerSec f * (Channels f * BitsPerSample f div 8) < 4294967296 \<longrightarrow>
      derived_fields_hold f) \<and>
   (Unmarshal stream (Some dst) = (None, Some g) \<longrightarrow>
      channels g = read_uint16_at stream 22 (channels dst) \<and>
      samplesPerSec g = read_uint32_at stream 24 (samplesPerSec dst) \<and>
      avgBytesPerSec g = read_uint32_at stream 28 (avgBytesPerSec dst) \<and>
      blockAlign g = read_uint16_at stream 32 (blockAlign dst) \<and>
      bitsPerSample g = read_uint16_at stream 34 (bitsPerSample dst))"
  using New_derived_fields [of rate bits ch f] Unmarshal_header_fields [of stream dst g]
  by blast

theorem derived_fields_after_New_and_Unmarshal_witness:
  "New 44100 16 2 = Inr cd_file \<and>
   Channels cd_file * BitsPerSample cd_file = 32 \<and>
   SamplesPerSec cd_file * (Channels cd_file * BitsPerSample cd_file div 8) = 176400 \<and>
   BlockAlign cd_file = 4 \<and> AvgBytesPerSec cd_file = 176400 \<and>
   derived_fields_hold cd_file \<and>
   Unmarshal misaligned_pcm (Some File_zero) = (None, Some misaligned_file) \<and>
   blockAlign misaligned_file = read_uint16_at misaligned_pcm 32 0 \<and>
   blockAlign misaligned_file = 8"
proof -
  have c: "Channels cd_file * BitsPerSample cd_file = 32"
    by (simp add: Channels_def BitsPerSample_def cd_file_def)
  have s: "SamplesPerSec cd_file * (Channels cd_file * BitsPerSample cd_file div 8) = 176400"
    by (simp add: SamplesPerSec_def Channels_def BitsPerSample_def cd_file_def)
  have b: "BlockAlign cd_file = 4 \<and> AvgBytesPerSec cd_file = 176400"
    by (simp add: BlockAlign_def AvgBytesPerSec_def cd_file_def)
  have z: "blockAlign File_zero = 0"
    by (simp add: File_zero_def)
  have m: "blockAlign misaligned_file = 8"
    by (simp add: misaligned_file_def)
  from derived_fields_after_New_and_Unmarshal
    [of 44100 16 2 cd_file misaligned_pcm File_zero misaligned_file]
    New_cd_file Unmarshal_misaligned c s b z m
  show ?thesis
    by simp
qed

subsection \<open>Rejected format tags\<close>

lemma adpcm_head_tag: "read_uint16_at adpcm_head 20 old = 2"
  by (simp add: read_uint16_at adpcm_head_def NewSectionReader_def Uint16_def)

text \<open>
  C8, as stated, fails: decoding a buffer whose format tag is 2 into the file
  \<open>New(44100, 16, 2)\<close> returned yields the error and leaves that file with format
  tag 2 instead of 1.
\<close>

theorem Unmarshal_error_overwrites_formatTag:
  "New 44100 16 2 = Inr cd_file \<and>
   formatTag cd_file = 1 \<and>
   Uint16 (NewSectionReader adpcm_head 20 2) = 2 \<and>
   Unmarshal adpcm_head (Some cd_file) =
     (Some (UnsupportedFormatTag 2), Some (cd_file\<lparr>formatTag := 2\<rparr>)) \<and>
   formatTag (cd_file\<lparr>formatTag := 2\<rparr>) = 2"
proof -
  have "Uint16 (NewSectionReader adpcm_head 20 2) = 2"
    by (simp add: adpcm_head_def NewSectionReader_def Uint16_def)
  moreover have "Unmarshal adpcm_head (Some cd_file) =
      (Some (UnsupportedFormatTag 2), Some (cd_file\<lparr>formatTag := 2\<rparr>))"
    using Unmarshal_rejects [of adpcm_head cd_file] by (simp add: adpcm_head_tag)
  moreover have "formatTag cd_file = 1"
    by (simp add: cd_file_def)
  ultimately show ?thesis
    using New_cd_file by simp
qed

text \<open>
  C8, amended. Let \<open>t\<close> be the format tag \<open>Unmarshal\<close> examines: the uint16 at
  offset 20 of the buffer, or the tag the destination holds where the buffer is shorter
  than 22 bytes. If \<open>t\<close> is neither 1 nor 0xFFFE, \<open>Unmarshal\<close> returns the error
  carrying \<open>t\<close> and leaves the destination with its \<open>formatTag\<close> overwritten by
  \<open>t\<close>; every other field of the destination is as before the call.
\<close>

theorem Unmarshal_unsupported_tag:
  assumes "t = read_uint16_at stream 20 (formatTag dst)"
    and "t \<noteq> WAVE_FORMAT_PCM" and "t \<noteq> WAVE_FORMAT_EXTENSIBLE"
  shows "Unmarshal stream (Some dst) =
     (Some (UnsupportedFormatTag t), Some (dst\<lparr>formatTag := t\<rparr>))"
  using assms Unmarshal_rejects [of stream dst] by simp

theorem Unmarshal_unsupported_tag_witness:
  "read_uint16_at adpcm_head 20 (formatTag cd_file) = 2 \<and>
   Unmarshal adpcm_head (Some cd_file) =
     (Some (UnsupportedFormatTag 2), Some (cd_file\<lparr>formatTag := 2\<rparr>))"
  using Unmarshal_unsupported_tag [of 2 adpcm_head cd_file]
  by (simp add: adpcm_head_tag)

subsection \<open>The length field and the bytes held\<close>

lemma Unmarshal_truncated:
  "Unmarshal truncated_pcm (Some File_zero) = (None, Some truncated_file)"
  by (simp add: truncated_pcm_def truncated_file_def File_zero_def NewSectionReader_def
      Read_uint16_def Read_uint32_def Uint16_def Uint32_def)

text \<open>
  C4. The comment of \<open>Length\<close> promises the value of \<open>len(v.Bytes())\<close>.
  \<open>Unmarshal\<close> of a PCM buffer that declares a payload of 4 bytes and holds 2
  succeeds, and leaves a file whose \<open>Length\<close> is 4 while its \<open>Bytes\<close> are the 2
  bytes the buffer held.
\<close>

theorem Unmarshal_truncated_length:
  "Unmarshal truncated_pcm (Some File_zero) = (None, Some truncated_file) \<and>
   Length truncated_file = 4 \<and> length (Bytes truncated_file) = 2"
proof -
  have "Length truncated_file = 4"
    by (simp add: Length_def truncated_file_def)
  moreover have "length (Bytes truncated_file) = 2"
    by (simp add: Bytes_def truncated_file_def)
  ultimately show ?thesis
    using Unmarshal_truncated by simp
qed

subsection \<open>Sequential reads\<close>

text \<open>
  C7. On the file \<open>Unmarshal\<close> leaves for that buffer, a \<open>Read\<close> of 2 bytes
  returns the 2 bytes held and no error; the next \<open>Read\<close> neither returns a byte nor
  signals the end of the data (2 of the 4 bytes of \<open>Length\<close> are consumed): it
  indexes \<open>data\<close> past its end, which panics.
\<close>

theorem Read_truncated_panics:
  "Unmarshal truncated_pcm (Some File_zero) = (None, Some truncated_file) \<and>
   Read truncated_file [0, 0] =
     Inr ((2, None), [0x01, 0x02], truncated_file\<lparr>offset := 2\<rparr>) \<and>
   Read (truncated_file\<lparr>offset := 2\<rparr>) [0] = Inl PanicIndexOutOfRange"
proof -
  have "Read truncated_file [0, 0] =
      Inr ((2, None), [0x01, 0x02], truncated_file\<lparr>offset := 2\<rparr>)"
    by (simp add: Read_def Read_loop.simps Length_def truncated_file_def)
  moreover have "Read (truncated_file\<lparr>offset := 2\<rparr>) [0] = Inl PanicIndexOutOfRange"
    by (simp add: Read_def Read_loop.simps Length_def truncated_file_def)
  ultimately show ?thesis
    using Unmarshal_truncated by simp
qed

subsection \<open>Samples of 24 bits\<close>

lemma New_s24_empty: "New 48000 24 1 = Inr s24_empty"
  by (simp add: New_def Let_def signed_modulo_int_def File_zero_def s24_empty_def)

lemma Write_s24_file:
  "Write s24_empty [0x01, 0x00, 0x00, 0xFF, 0xFF, 0xFF, 0x00, 0x00, 0x01] =
     ((9, None), s24_file)"
  by (simp add: Write_def Write_loop.simps s24_empty_def s24_file_def)

lemma Int32s_s24_file: "Int32s s24_file = Inr [0x00010000, 0xFFFF0000, 0x00000000]"
  by code_simp

text \<open>
  C2. The file \<open>New(48000, 24, 1)\<close> returns, after a \<open>Write\<close> of the 24-bit
  samples \<open>1\<close>, \<open>-1\<close> and \<open>65536\<close>, converts to the 32-bit values
  \<open>65536\<close>, \<open>-65536\<close> and \<open>0\<close>: each sample times \<open>2 ^ 16\<close>, cut to 32 bits.
  Sign extension followed by a shift of 8 bits yields \<open>256\<close>, \<open>-256\<close> and
  \<open>16777216\<close>.
\<close>

theorem Int32s_24_bit_scales_twice:
  "New 48000 24 1 = Inr s24_empty \<and>
   Write s24_empty [0x01, 0x00, 0x00, 0xFF, 0xFF, 0xFF, 0x00, 0x00, 0x01] =
     ((9, None), s24_file) \<and>
   Int32s s24_file = Inr [0x00010000, 0xFFFF0000, 0x00000000] \<and>
   map sint [0x00010000, 0xFFFF0000, 0x00000000 :: int32] = [65536, - 65536, 0]"
proof -
  have "map sint [0x00010000, 0xFFFF0000, 0x00000000 :: int32] = [65536, - 65536, 0]"
    by simp
  then show ?thesis
    using New_s24_empty Write_s24_file Int32s_s24_file by simp
qed

subsection \<open>Unsupported bit depths\<close>

lemma Samples_error: "Samples v = Inl e \<Longrightarrow> e = PanicDivideByZero"
  by (simp add: Samples_def split: if_splits)

lemma index_assign_error: "index_assign dst j src i = Inl e \<Longrightarrow> e = PanicIndexOutOfRange"
  by (simp add: index_assign_def split: if_splits)

lemma fromS24_loop_error:
  "fromS24_loop i len src dst = Inl e \<Longrightarrow> e = PanicIndexOutOfRange"
proof (induction i len src dst rule: fromS24_loop.induct)
  case (1 i len src dst)
  show ?case
  proof (cases "i < len")
    case False
    with "1.prems" show ?thesis
      by (simp add: fromS24_loop.simps [of i len src dst])
  next
    case True
    show ?thesis
    proof (cases "index_assign dst (i div 3 + 1 + i) src i")
      case (Inl e1)
      with True "1.prems" index_assign_error [OF Inl] show ?thesis
        by (simp add: fromS24_loop.simps [of i len src dst])
    next
      case d1: (Inr dst1)
      show ?thesis
      proof (cases "index_assign dst1 (i div 3 + 1 + i + 1) src (i + 1)")
        case (Inl e2)
        with True d1 "1.prems" index_assign_error [OF Inl] show ?thesis
          by (simp add: fromS24_loop.simps [of i len src dst])
      next
        case d2: (Inr dst2)
        show ?thesis
        proof (cases "index_assign dst2 (i div 3 + 1 + i + 2) src (i + 2)")
          case (Inl e3)
          with True d1 d2 "1.prems" index_assign_error [OF Inl] show ?thesis
            by (simp add: fromS24_loop.simps [of i len src dst])
        next
          case d3: (Inr dst3)
          from True d1 d2 d3 "1.prems" have "fromS24_loop (i + 3) len src dst3 = Inl e"
            by (simp add: fromS24_loop.simps [of i len src dst])
          with "1.IH" [OF True refl d1 d2 d3] show ?thesis
            by simp
        qed
      qed
    qed
  qed
qed

lemma fromS8ToInt32s_error: "fromS8ToInt32s v = Inl e \<Longrightarrow> is_panic e"
  by (auto simp add: fromS8ToInt32s_def Let_def split: sum.splits dest: Samples_error)

lemma fromS16ToInt32s_error: "fromS16ToInt32s v = Inl e \<Longrightarrow> is_panic e"
  by (auto simp add: fromS16ToInt32s_def Let_def split: sum.splits dest: Samples_error)

lemma fromS24ToInt32s_error: "fromS24ToInt32s v = Inl e \<Longrightarrow> is_panic e"
  by (auto simp add: fromS24ToInt32s_def Let_def split: sum.splits
      dest: Samples_error fromS24_loop_error)

lemma fromS32ToInt32s_error: "fromS32ToInt32s v = Inl e \<Longrightarrow> is_panic e"
  by (auto simp add: fromS32ToInt32s_def Let_def split: sum.splits dest: Samples_error)

lemma Int32s_error_is_panic: "Int32s v = Inl e \<Longrightarrow> is_panic e"
  using fromS8ToInt32s_error [of v e] fromS16ToInt32s_error [of v e]
    fromS24ToInt32s_error [of v e] fromS32ToInt32s_error [of v e]
  by (simp add: Int32s_def split: if_splits)

lemma Int32s_other_depth:
  assumes "bitsPerSample v \<notin> {8, 16, 24, 32}"
  shows "Int32s v = Inr []"
proof -
  have "unat (bitsPerSample v) = unat (k :: uint16) \<Longrightarrow> bitsPerSample v = k" for k
    by (simp add: word_unat_eq_iff)
  from this [of 8] this [of 16] this [of 24] this [of 32] assms
  show "Int32s v = Inr []"
    by (auto simp add: Int32s_def BitsPerSample_def)
qed

text \<open>
  C9. For a bit depth other than 8, 16, 24 and 32, \<open>Int32s\<close> returns the empty
  sequence. \<open>Int32s\<close> has no error result: whatever the bit depth, the only way it
  can end without a sequence is a run-time panic.
\<close>

theorem Int32s_unsupported_depth:
  "(bitsPerSample v \<notin> {8, 16, 24, 32} \<longrightarrow> Int32s v = Inr []) \<and>
   (\<forall>e. Int32s v = Inl e \<longrightarrow> is_panic e)"
  using Int32s_other_depth [of v] Int32s_error_is_panic [of v]
  by blast

theorem Int32s_unsupported_depth_witness:
  "bitsPerSample twelve_bit_file \<notin> {8, 16, 24, 32} \<and> Int32s twelve_bit_file = Inr [] \<and>
   Int32s zero_channel_file = Inl PanicDivideByZero \<and> is_panic PanicDivideByZero"
proof -
  have a: "bitsPerSample twelve_bit_file \<notin> {8, 16, 24, 32}"
    by (simp add: twelve_bit_file_def)
  have b: "Int32s zero_channel_file = Inl PanicDivideByZero"
    by (simp add: Int32s_def BitsPerSample_def fromS8ToInt32s_def Samples_def
        zero_channel_file_def)
  from Int32s_unsupported_depth [of twelve_bit_file] Int32s_unsupported_depth [of zero_channel_file]
    a b show ?thesis
    by simp
qed

end
